theory Spec2Isabelle
  imports Main "HOL-Library.Code_Target_Nat"
begin

section \<open>JavaScript strings\<close>

text \<open>
  The two route handlers of the repository, \<open>GET /logs\<close> with its helper
  \<open>determineLogLevel\<close> and \<open>DELETE /files\<close>, as functions on the values JavaScript
  computes with. What the handlers take from the platform (\<open>JSON.parse\<close>,
  \<open>JSON.stringify\<close>, the conversions of \<open>||\<close> and of string methods) is defined here
  as ECMAScript specifies it; what they take from the outside (the environment, the clock,
  the queue, the object store) is a parameter. The limits of an engine (stack depth,
  string length, memory) are not modelled.

  A JavaScript string is a sequence of UTF-16 code units; \<open>substring\<close>, \<open>length\<close> and
  \<open>includes\<close> count code units. A code unit is a natural number here (below 65536 in
  every string JavaScript can build), and \<open>str\<close> reads a literal of the source.
\<close>

type_synonym jsstring = "nat list"

definition str :: "string \<Rightarrow> jsstring" where
  "str s = map of_char s"

text \<open>
  \<open>String.prototype.toUpperCase\<close> and \<open>toLowerCase\<close>, as far as this program can
  observe them. The program compares an uppercased string with \<open>ERROR\<close>, \<open>WARN\<close> and
  \<open>INFO\<close>, and searches a lowercased string for \<open>error\<close>, \<open>exception\<close>, \<open>fail\<close>, \<open>warn\<close>
  and \<open>caution\<close>. The letters \<open>a\<close> to \<open>z\<close> and \<open>A\<close> to \<open>Z\<close> change case, and the dotless
  i (U+0131) has the uppercase \<open>I\<close>. Every other code unit is left as it is: where
  Unicode maps it, the result holds a unit outside ASCII or a letter that cannot take
  part in one of these words (the uppercase \<open>S\<close> of U+017F, \<open>FF\<close>, \<open>FI\<close>, \<open>FL\<close>, \<open>ST\<close> of
  the ligatures, the lowercase \<open>k\<close> of U+212A, the \<open>i\<close> of U+0130 with its combining
  dot).
\<close>

definition upper_unit :: "nat \<Rightarrow> nat" where
  "upper_unit c = (if 97 \<le> c \<and> c \<le> 122 then c - 32 else if c = 305 then 73 else c)"

definition lower_unit :: "nat \<Rightarrow> nat" where
  "lower_unit c = (if 65 \<le> c \<and> c \<le> 90 then c + 32 else c)"

definition toUpperCase :: "jsstring \<Rightarrow> jsstring" where
  "toUpperCase s = map upper_unit s"

definition toLowerCase :: "jsstring \<Rightarrow> jsstring" where
  "toLowerCase s = map lower_unit s"

text \<open>\<open>s.substring(0, n)\<close>: the first \<open>n\<close> code units, or all of \<open>s\<close> when it is shorter.\<close>

definition substring0 :: "jsstring \<Rightarrow> nat \<Rightarrow> jsstring" where
  "substring0 s n = take n s"

text \<open>\<open>s.includes(p)\<close>: \<open>p\<close> occurs in \<open>s\<close> as a contiguous run of code units.\<close>

fun startsWith :: "jsstring \<Rightarrow> jsstring \<Rightarrow> bool" where
  "startsWith s [] = True"
| "startsWith [] (p # ps) = False"
| "startsWith (c # cs) (p # ps) = (c = p \<and> startsWith cs ps)"

fun str_includes :: "jsstring \<Rightarrow> jsstring \<Rightarrow> bool" where
  "str_includes [] p = (p = [])"
| "str_includes (c # cs) p = (startsWith (c # cs) p \<or> str_includes cs p)"

text \<open>The decimal digits of a natural number, as a template literal prints \<open>logs.length\<close>.\<close>

fun digits :: "nat \<Rightarrow> jsstring" where
  "digits n = (if n < 10 then [48 + n] else digits (n div 10) @ [48 + n mod 10])"

declare digits.simps [simp del]

section \<open>JSON values\<close>

text \<open>
  The values \<open>JSON.parse\<close> returns. A number is kept as the exact decimal its literal
  denotes, \<open>JNumber m e\<close> for \<open>m * 10 ^ e\<close>. An object is the list of its own properties
  in the order JavaScript enumerates them, each key once.
\<close>

datatype json =
    JNull
  | JBool bool
  | JNumber int int
  | JString jsstring
  | JArray "json list"
  | JObject "(jsstring \<times> json) list"

datatype js_error = SyntaxError | TypeError

text \<open>
  JavaScript reads a number literal as the nearest IEEE-754 double, ties to even. Two
  roundings change what the program does with the number: a literal of magnitude at most
  \<open>2 ^ -1075\<close> is the number 0, which is falsy, and one of magnitude at least
  \<open>2 ^ 1024 - 2 ^ 970\<close> is \<open>Infinity\<close>, which \<open>JSON.stringify\<close> prints as \<open>null\<close>.
\<close>

definition rounds_to_zero :: "int \<Rightarrow> int \<Rightarrow> bool" where
  "rounds_to_zero m e =
     (if 0 \<le> e then m = 0 else \<bar>m\<bar> * 2 ^ 1075 \<le> 10 ^ nat (- e))"

definition rounds_to_infinity :: "int \<Rightarrow> int \<Rightarrow> bool" where
  "rounds_to_infinity m e =
     (if 0 \<le> e then 2 ^ 1024 - 2 ^ 970 \<le> \<bar>m\<bar> * 10 ^ nat e
      else (2 ^ 1024 - 2 ^ 970) * 10 ^ nat (- e) \<le> \<bar>m\<bar>)"

text \<open>
  \<open>Number.prototype.toString\<close> on a number that is neither 0 nor infinite prints the
  shortest decimal that reads back as the same double. The model prints the decimal the
  literal denotes, in positional notation: the two agree on the integers of magnitude up
  to \<open>2 ^ 53\<close>, and differ in the digits elsewhere, never in the characters used
  (digits, a sign, a point; JavaScript also the letter \<open>e\<close>).
\<close>

definition fraction_digits :: "nat \<Rightarrow> nat \<Rightarrow> jsstring" where
  "fraction_digits k f =
     rev (dropWhile (\<lambda>c. c = 48) (rev (replicate (k - length (digits f)) 48 @ digits f)))"

definition decimal :: "nat \<Rightarrow> int \<Rightarrow> jsstring" where
  "decimal n e =
     (if 0 \<le> e then digits (n * 10 ^ nat e)
      else let k = nat (- e); f = n mod 10 ^ k
           in digits (n div 10 ^ k) @ (if f = 0 then [] else str ''.'' @ fraction_digits k f))"

definition Number_toString :: "int \<Rightarrow> int \<Rightarrow> jsstring" where
  "Number_toString m e =
     (if rounds_to_zero m e then str ''0''
      else if rounds_to_infinity m e
        then (if m < 0 then str ''-Infinity'' else str ''Infinity'')
      else (if m < 0 then str ''-'' else []) @ decimal (nat \<bar>m\<bar>) e)"

text \<open>Truthiness, as \<open>||\<close>, \<open>!\<close> and \<open>if\<close> test it. \<open>None\<close> stands for \<open>undefined\<close>.\<close>

fun truthy :: "json \<Rightarrow> bool" where
  "truthy JNull = False"
| "truthy (JBool b) = b"
| "truthy (JNumber m e) = (\<not> rounds_to_zero m e)"
| "truthy (JString s) = (s \<noteq> [])"
| "truthy (JArray es) = True"
| "truthy (JObject ps) = True"

text \<open>\<open>a || d\<close> for a value \<open>a\<close> that may be \<open>undefined\<close> and a default \<open>d\<close>;
  \<open>undefined\<close> is falsy.\<close>

definition orElse :: "json option \<Rightarrow> json \<Rightarrow> json" where
  "orElse a d = (case a of None \<Rightarrow> d | Some v \<Rightarrow> if truthy v then v else d)"

definition is_truthy :: "json option \<Rightarrow> bool" where
  "is_truthy a = (case a of None \<Rightarrow> False | Some v \<Rightarrow> truthy v)"

definition str_orElse :: "jsstring option \<Rightarrow> jsstring \<Rightarrow> jsstring" where
  "str_orElse a d = (case a of None \<Rightarrow> d | Some s \<Rightarrow> if s \<noteq> [] then s else d)"

text \<open>
  Reading a property \<open>v.k\<close>. On \<open>null\<close> it throws a TypeError. An object has the
  properties it was parsed with; a primitive or an array has none of the names this
  program reads (\<open>Message\<close>, \<open>Timestamp\<close>, \<open>MessageId\<close>, \<open>message\<close>, \<open>function\<close>,
  \<open>requestId\<close>, \<open>level\<close>, \<open>fileId\<close>), and neither do the built-in prototypes.
\<close>

fun lookup :: "json \<Rightarrow> jsstring \<Rightarrow> json option" where
  "lookup (JObject ps) k = map_of ps k"
| "lookup v k = None"

definition getProp :: "json \<Rightarrow> jsstring \<Rightarrow> js_error + json option" where
  "getProp v k = (if v = JNull then Inl TypeError else Inr (lookup v k))"

section \<open>JSON.parse\<close>

subsection \<open>Tokens\<close>

datatype token =
    TLBrace | TRBrace | TLBracket | TRBracket | TColon | TComma
  | TString jsstring
  | TNumber int int
  | TTrue | TFalse | TNull

text \<open>
  The lexer reads one code unit at a time. Its states: between tokens; inside a string
  (the units read so far), after a backslash, inside a \<open>\u\<close> escape (digits read, their
  value); inside \<open>true\<close>, \<open>false\<close> or \<open>null\<close> (the units still to come); and the
  positions of a number literal (sign, mantissa digits read as a natural number, the
  exponent shift of the fraction digits, the exponent's sign and digits).
\<close>

datatype lexstate =
    LStart
  | LString jsstring
  | LEscape jsstring
  | LUnicode jsstring nat nat
  | LWord jsstring token
  | LMinus
  | LZero bool
  | LInt bool nat
  | LPoint bool nat
  | LFrac bool nat int
  | LExp bool nat int
  | LExpSign bool nat int bool
  | LExpDigits bool nat int bool nat

definition is_digit :: "nat \<Rightarrow> bool" where
  "is_digit c = (48 \<le> c \<and> c \<le> 57)"

definition hex_value :: "nat \<Rightarrow> nat option" where
  "hex_value c =
     (if 48 \<le> c \<and> c \<le> 57 then Some (c - 48)
      else if 65 \<le> c \<and> c \<le> 70 then Some (c - 55)
      else if 97 \<le> c \<and> c \<le> 102 then Some (c - 87)
      else None)"

definition number_token :: "bool \<Rightarrow> nat \<Rightarrow> int \<Rightarrow> token" where
  "number_token neg m e = TNumber (if neg then - int m else int m) e"

definition lex_start :: "nat \<Rightarrow> js_error + token list \<times> lexstate" where
  "lex_start c =
     (if c = 32 \<or> c = 9 \<or> c = 10 \<or> c = 13 then Inr ([], LStart)
      else if c = 123 then Inr ([TLBrace], LStart)
      else if c = 125 then Inr ([TRBrace], LStart)
      else if c = 91 then Inr ([TLBracket], LStart)
      else if c = 93 then Inr ([TRBracket], LStart)
      else if c = 58 then Inr ([TColon], LStart)
      else if c = 44 then Inr ([TComma], LStart)
      else if c = 34 then Inr ([], LString [])
      else if c = 45 then Inr ([], LMinus)
      else if c = 48 then Inr ([], LZero False)
      else if is_digit c then Inr ([], LInt False (c - 48))
      else if c = 116 then Inr ([], LWord (str ''rue'') TTrue)
      else if c = 102 then Inr ([], LWord (str ''alse'') TFalse)
      else if c = 110 then Inr ([], LWord (str ''ull'') TNull)
      else Inl SyntaxError)"

text \<open>A number literal ends at the first unit that cannot continue it; that unit is then
  read as the start of the next token.\<close>

definition end_number :: "token \<Rightarrow> nat \<Rightarrow> js_error + token list \<times> lexstate" where
  "end_number t c =
     (case lex_start c of Inl err \<Rightarrow> Inl err | Inr (ts, st) \<Rightarrow> Inr (t # ts, st))"

definition is_exp :: "nat \<Rightarrow> bool" where
  "is_exp c = (c = 101 \<or> c = 69)"

fun lex_step :: "lexstate \<Rightarrow> nat \<Rightarrow> js_error + token list \<times> lexstate" where
  "lex_step LStart c = lex_start c"
| "lex_step (LString acc) c =
     (if c = 34 then Inr ([TString acc], LStart)
      else if c = 92 then Inr ([], LEscape acc)
      else if c < 32 then Inl SyntaxError
      else Inr ([], LString (acc @ [c])))"
| "lex_step (LEscape acc) c =
     (if c = 34 \<or> c = 92 \<or> c = 47 then Inr ([], LString (acc @ [c]))
      else if c = 98 then Inr ([], LString (acc @ [8]))
      else if c = 102 then Inr ([], LString (acc @ [12]))
      else if c = 110 then Inr ([], LString (acc @ [10]))
      else if c = 114 then Inr ([], LString (acc @ [13]))
      else if c = 116 then Inr ([], LString (acc @ [9]))
      else if c = 117 then Inr ([], LUnicode acc 0 0)
      else Inl SyntaxError)"
| "lex_step (LUnicode acc k v) c =
     (case hex_value c of
        None \<Rightarrow> Inl SyntaxError
      | Some h \<Rightarrow>
          if k = 3 then Inr ([], LString (acc @ [v * 16 + h]))
          else Inr ([], LUnicode acc (k + 1) (v * 16 + h)))"
| "lex_step (LWord w t) c =
     (case w of
        [] \<Rightarrow> Inl SyntaxError
      | x # xs \<Rightarrow>
          if c \<noteq> x then Inl SyntaxError
          else if xs = [] then Inr ([t], LStart)
          else Inr ([], LWord xs t))"
| "lex_step LMinus c =
     (if c = 48 then Inr ([], LZero True)
      else if is_digit c then Inr ([], LInt True (c - 48))
      else Inl SyntaxError)"
| "lex_step (LZero neg) c =
     (if c = 46 then Inr ([], LPoint neg 0)
      else if is_exp c then Inr ([], LExp neg 0 0)
      else end_number (number_token neg 0 0) c)"
| "lex_step (LInt neg m) c =
     (if is_digit c then Inr ([], LInt neg (10 * m + (c - 48)))
      else if c = 46 then Inr ([], LPoint neg m)
      else if is_exp c then Inr ([], LExp neg m 0)
      else end_number (number_token neg m 0) c)"
| "lex_step (LPoint neg m) c =
     (if is_digit c then Inr ([], LFrac neg (10 * m + (c - 48)) (- 1))
      else Inl SyntaxError)"
| "lex_step (LFrac neg m s) c =
     (if is_digit c then Inr ([], LFrac neg (10 * m + (c - 48)) (s - 1))
      else if is_exp c then Inr ([], LExp neg m s)
      else end_number (number_token neg m s) c)"
| "lex_step (LExp neg m s) c =
     (if c = 43 then Inr ([], LExpSign neg m s False)
      else if c = 45 then Inr ([], LExpSign neg m s True)
      else if is_digit c then Inr ([], LExpDigits neg m s False (c - 48))
      else Inl SyntaxError)"
| "lex_step (LExpSign neg m s eneg) c =
     (if is_digit c then Inr ([], LExpDigits neg m s eneg (c - 48))
      else Inl SyntaxError)"
| "lex_step (LExpDigits neg m s eneg x) c =
     (if is_digit c then Inr ([], LExpDigits neg m s eneg (10 * x + (c - 48)))
      else end_number (number_token neg m (if eneg then s - int x else s + int x)) c)"

text \<open>At the end of the text a complete number literal is a token; an open string,
  escape, word or number is a syntax error.\<close>

fun lex_end :: "lexstate \<Rightarrow> js_error + token list" where
  "lex_end LStart = Inr []"
| "lex_end (LZero neg) = Inr [number_token neg 0 0]"
| "lex_end (LInt neg m) = Inr [number_token neg m 0]"
| "lex_end (LFrac neg m s) = Inr [number_token neg m s]"
| "lex_end (LExpDigits neg m s eneg x) =
     Inr [number_token neg m (if eneg then s - int x else s + int x)]"
| "lex_end st = Inl SyntaxError"

fun lex :: "lexstate \<Rightarrow> jsstring \<Rightarrow> js_error + token list" where
  "lex st [] = lex_end st"
| "lex st (c # cs) =
     (case lex_step st c of
        Inl err \<Rightarrow> Inl err
      | Inr (ts, st') \<Rightarrow>
          (case lex st' cs of Inl err \<Rightarrow> Inl err | Inr rest \<Rightarrow> Inr (ts @ rest)))"

subsection \<open>Objects\<close>

text \<open>
  An object enumerates its own properties with the array indices first (the canonical
  decimal strings below \<open>2 ^ 32 - 1\<close>), in ascending order, and then the other keys in
  the order they were created. \<open>JSON.parse\<close> defines each member of an object literal in
  turn: a key seen again keeps its place and takes the new value.
\<close>

definition array_index :: "jsstring \<Rightarrow> nat option" where
  "array_index k =
     (if k \<noteq> [] \<and> list_all is_digit k \<and> (length k = 1 \<or> 48 < hd k)
      then (let n = foldl (\<lambda>a c. 10 * a + (c - 48)) 0 k
            in if n < 4294967295 then Some n else None)
      else None)"

fun insert_index :: "nat \<Rightarrow> jsstring \<times> json \<Rightarrow> (jsstring \<times> json) list \<Rightarrow> (jsstring \<times> json) list" where
  "insert_index n kv [] = [kv]"
| "insert_index n kv (p # ps) =
     (case array_index (fst p) of
        None \<Rightarrow> kv # p # ps
      | Some i \<Rightarrow> if i < n then p # insert_index n kv ps else kv # p # ps)"

definition defineProp :: "(jsstring \<times> json) list \<Rightarrow> jsstring \<Rightarrow> json \<Rightarrow> (jsstring \<times> json) list" where
  "defineProp ps k v =
     (case map_of ps k of
        Some old \<Rightarrow> map (\<lambda>p. if fst p = k then (k, v) else p) ps
      | None \<Rightarrow>
          (case array_index k of
             None \<Rightarrow> ps @ [(k, v)]
           | Some n \<Rightarrow> insert_index n (k, v) ps))"

subsection \<open>The parser\<close>

text \<open>
  The parser reads one token at a time and keeps the containers that are still open on
  a stack: an array with its elements so far, an object with its properties so far, and
  an object whose next value belongs to a key already read.
\<close>

datatype frame =
    InArray "json list"
  | InObject "(jsstring \<times> json) list"
  | AfterKey "(jsstring \<times> json) list" jsstring

datatype expect =
    Value | ValueOrClose | KeyOrClose | Key | Colon | CommaOrClose | Finished json

definition deliver :: "json \<Rightarrow> frame list \<Rightarrow> js_error + expect \<times> frame list" where
  "deliver v stack =
     (case stack of
        [] \<Rightarrow> Inr (Finished v, [])
      | InArray es # rest \<Rightarrow> Inr (CommaOrClose, InArray (es @ [v]) # rest)
      | AfterKey ps k # rest \<Rightarrow> Inr (CommaOrClose, InObject (defineProp ps k v) # rest)
      | InObject ps # rest \<Rightarrow> Inl SyntaxError)"

fun open_value :: "token \<Rightarrow> frame list \<Rightarrow> js_error + expect \<times> frame list" where
  "open_value (TString s) stack = deliver (JString s) stack"
| "open_value (TNumber m e) stack = deliver (JNumber m e) stack"
| "open_value TTrue stack = deliver (JBool True) stack"
| "open_value TFalse stack = deliver (JBool False) stack"
| "open_value TNull stack = deliver JNull stack"
| "open_value TLBracket stack = Inr (ValueOrClose, InArray [] # stack)"
| "open_value TLBrace stack = Inr (KeyOrClose, InObject [] # stack)"
| "open_value t stack = Inl SyntaxError"

fun read_key :: "token \<Rightarrow> frame list \<Rightarrow> js_error + expect \<times> frame list" where
  "read_key (TString k) (InObject ps # rest) = Inr (Colon, AfterKey ps k # rest)"
| "read_key t stack = Inl SyntaxError"

fun close_container :: "token \<Rightarrow> frame list \<Rightarrow> js_error + expect \<times> frame list" where
  "close_container TRBracket (InArray es # rest) = deliver (JArray es) rest"
| "close_container TRBrace (InObject ps # rest) = deliver (JObject ps) rest"
| "close_container t stack = Inl SyntaxError"

fun parse_token :: "expect \<Rightarrow> frame list \<Rightarrow> token \<Rightarrow> js_error + expect \<times> frame list" where
  "parse_token Value stack t = open_value t stack"
| "parse_token ValueOrClose stack t =
     (if t = TRBracket then close_container t stack else open_value t stack)"
| "parse_token KeyOrClose stack t =
     (if t = TRBrace then close_container t stack else read_key t stack)"
| "parse_token Key stack t = read_key t stack"
| "parse_token Colon stack t = (if t = TColon then Inr (Value, stack) else Inl SyntaxError)"
| "parse_token CommaOrClose stack t =
     (if t = TComma
      then (case stack of
              InArray es # rest \<Rightarrow> Inr (Value, stack)
            | InObject ps # rest \<Rightarrow> Inr (Key, stack)
            | _ \<Rightarrow> Inl SyntaxError)
      else close_container t stack)"
| "parse_token (Finished v) stack t = Inl SyntaxError"

fun parse_tokens :: "expect \<Rightarrow> frame list \<Rightarrow> token list \<Rightarrow> js_error + json" where
  "parse_tokens ex stack [] =
     (case ex of Finished v \<Rightarrow> (if stack = [] then Inr v else Inl SyntaxError)
      | _ \<Rightarrow> Inl SyntaxError)"
| "parse_tokens ex stack (t # ts) =
     (case parse_token ex stack t of
        Inl err \<Rightarrow> Inl err
      | Inr (ex', stack') \<Rightarrow> parse_tokens ex' stack' ts)"

definition JSON_parse :: "jsstring \<Rightarrow> js_error + json" where
  "JSON_parse text =
     (case lex LStart text of
        Inl err \<Rightarrow> Inl err
      | Inr ts \<Rightarrow> parse_tokens Value [] ts)"

section \<open>JSON.stringify and ToString\<close>

definition hex_digit :: "nat \<Rightarrow> nat" where
  "hex_digit d = (if d < 10 then 48 + d else 87 + d)"

definition unicode_escape :: "nat \<Rightarrow> jsstring" where
  "unicode_escape c =
     [92, 117, hex_digit (c div 4096 mod 16), hex_digit (c div 256 mod 16),
      hex_digit (c div 16 mod 16), hex_digit (c mod 16)]"

definition quote_unit :: "nat \<Rightarrow> jsstring" where
  "quote_unit c =
     (if c = 34 then [92, 34]
      else if c = 92 then [92, 92]
      else if c = 8 then [92, 98]
      else if c = 12 then [92, 102]
      else if c = 10 then [92, 110]
      else if c = 13 then [92, 114]
      else if c = 9 then [92, 116]
      else if c < 32 then unicode_escape c
      else [c])"

definition is_high :: "nat \<Rightarrow> bool" where
  "is_high c = (55296 \<le> c \<and> c \<le> 56319)"

definition is_low :: "nat \<Rightarrow> bool" where
  "is_low c = (56320 \<le> c \<and> c \<le> 57343)"

text \<open>A surrogate pair is printed as it is, a surrogate without its partner as a
  \<open>\u\<close> escape.\<close>

fun quote_units :: "jsstring \<Rightarrow> jsstring" where
  "quote_units [] = []"
| "quote_units [c] = (if is_high c \<or> is_low c then unicode_escape c else quote_unit c)"
| "quote_units (c # d # cs) =
     (if is_high c \<and> is_low d then c # d # quote_units cs
      else if is_high c \<or> is_low c then unicode_escape c @ quote_units (d # cs)
      else quote_unit c @ quote_units (d # cs))"

definition JSON_quote :: "jsstring \<Rightarrow> jsstring" where
  "JSON_quote s = [34] @ quote_units s @ [34]"

fun join_comma :: "jsstring list \<Rightarrow> jsstring" where
  "join_comma [] = []"
| "join_comma [s] = s"
| "join_comma (s # t # ts) = s @ [44] @ join_comma (t # ts)"

fun JSON_stringify :: "json \<Rightarrow> jsstring" where
  "JSON_stringify JNull = str ''null''"
| "JSON_stringify (JBool b) = (if b then str ''true'' else str ''false'')"
| "JSON_stringify (JNumber m e) =
     (if rounds_to_infinity m e then str ''null'' else Number_toString m e)"
| "JSON_stringify (JString s) = JSON_quote s"
| "JSON_stringify (JArray es) = [91] @ join_comma (map JSON_stringify es) @ [93]"
| "JSON_stringify (JObject ps) =
     [123] @ join_comma (map (\<lambda>p. JSON_quote (fst p) @ [58] @ JSON_stringify (snd p)) ps) @ [125]"

text \<open>
  \<open>JSON.parse(x)\<close> first converts \<open>x\<close> to a string. An array joins its elements with
  commas, \<open>null\<close> elements as the empty string. An object is \<open>[object Object]\<close>, unless
  it has a property \<open>toString\<close> of its own, which no JSON value can call: a TypeError.
\<close>

fun sequence :: "(js_error + jsstring) list \<Rightarrow> js_error + jsstring list" where
  "sequence [] = Inr []"
| "sequence (r # rs) =
     (case r of
        Inl err \<Rightarrow> Inl err
      | Inr s \<Rightarrow> (case sequence rs of Inl err \<Rightarrow> Inl err | Inr ss \<Rightarrow> Inr (s # ss)))"

fun ToString :: "json \<Rightarrow> js_error + jsstring" where
  "ToString JNull = Inr (str ''null'')"
| "ToString (JBool b) = Inr (if b then str ''true'' else str ''false'')"
| "ToString (JNumber m e) = Inr (Number_toString m e)"
| "ToString (JString s) = Inr s"
| "ToString (JArray es) =
     (case sequence (map (\<lambda>e. if e = JNull then Inr [] else ToString e) es) of
        Inl err \<Rightarrow> Inl err
      | Inr ss \<Rightarrow> Inr (join_comma ss))"
| "ToString (JObject ps) =
     (if map_of ps (str ''toString'') = None then Inr (str ''[object Object]'')
      else Inl TypeError)"

section \<open>The log route\<close>

subsection \<open>determineLogLevel\<close>

text \<open>
  The helper of the log route (lines 152 to 183 of the route's file; its parameter
  \<open>message\<close> is \<open>msg\<close> here). A falsy payload is \<open>INFO\<close>. A truthy \<open>level\<close> property
  is uppercased when it is a string (the empty string stands in otherwise) and returned
  when it is one of the three levels. Every other payload is serialised, lowercased and
  searched for the keywords.
\<close>

definition determineLogLevel :: "json \<Rightarrow> jsstring" where
  "determineLogLevel msg =
     (if \<not> truthy msg then str ''INFO''
      else
        let field = lookup msg (str ''level'');
            lv = (case field of Some (JString s) \<Rightarrow> toUpperCase s | _ \<Rightarrow> [])
        in if is_truthy field
              \<and> (lv = str ''ERROR'' \<or> lv = str ''WARN'' \<or> lv = str ''INFO'')
           then lv
           else
             let messageStr = toLowerCase (JSON_stringify msg)
             in if str_includes messageStr (str ''error'')
                   \<or> str_includes messageStr (str ''exception'')
                   \<or> str_includes messageStr (str ''fail'')
                then str ''ERROR''
                else if str_includes messageStr (str ''warn'')
                   \<or> str_includes messageStr (str ''caution'')
                then str ''WARN''
                else str ''INFO'')"

subsection \<open>One message\<close>

text \<open>
  A message of the queue, as the SDK delivers it: both fields are optional strings.
  An entry of the log list: \<open>id\<close> (the field \<open>id'\<close> here) and \<open>level\<close> are strings; the
  other fields hold whatever value the \<open>||\<close> chain selects.
\<close>

record sqs_message =
  MessageId :: "jsstring option"
  Body :: "jsstring option"

record LogEntry =
  id' :: jsstring
  timestamp :: json
  level :: jsstring
  message :: json
  lambdaFunction :: json
  requestId :: json

text \<open>
  The body of the \<open>try\<close> block (lines 55 to 78): \<open>now\<close> is what
  \<open>new Date().toISOString()\<close> returns while this message is processed, \<open>n\<close> is
  \<open>logs.length\<close>. Both calls of \<open>JSON.parse\<close> can throw, and so can the first read of a
  property of \<open>body\<close> and of \<open>snsMessage\<close>, either of which may be \<open>null\<close>.
\<close>

definition tryEntry :: "jsstring \<Rightarrow> nat \<Rightarrow> sqs_message \<Rightarrow> js_error + LogEntry" where
  "tryEntry now n m =
     (case JSON_parse (str_orElse (Body m) (str ''{}'')) of
        Inl err \<Rightarrow> Inl err
      | Inr body \<Rightarrow>
     (case getProp body (str ''Message'') of
        Inl err \<Rightarrow> Inl err
      | Inr bodyMessage \<Rightarrow>
     (case ToString (orElse bodyMessage (JString (str ''{}''))) of
        Inl err \<Rightarrow> Inl err
      | Inr text \<Rightarrow>
     (case JSON_parse text of
        Inl err \<Rightarrow> Inl err
      | Inr snsMessage \<Rightarrow>
     (case getProp snsMessage (str ''message'') of
        Inl err \<Rightarrow> Inl err
      | Inr snsText \<Rightarrow>
          Inr \<lparr> id' = str_orElse (MessageId m) (str ''msg-'' @ digits n),
                timestamp = orElse (lookup body (str ''Timestamp'')) (JString now),
                level = determineLogLevel snsMessage,
                message =
                  orElse snsText
                    (orElse bodyMessage (JString (str ''No message content''))),
                lambdaFunction =
                  orElse (lookup snsMessage (str ''function'')) (JString (str ''unknown'')),
                requestId =
                  orElse (lookup snsMessage (str ''requestId''))
                    (orElse (lookup body (str ''MessageId'')) (JString (str ''unknown''))) \<rparr>)))))"

text \<open>The entry the \<open>catch\<close> block pushes (lines 79 to 96).\<close>

definition catchEntry :: "jsstring \<Rightarrow> nat \<Rightarrow> sqs_message \<Rightarrow> LogEntry" where
  "catchEntry now n m =
     \<lparr> id' = str_orElse (MessageId m) (str ''msg-'' @ digits n),
       timestamp = JString now,
       level = str ''ERROR'',
       message =
         JString (str ''Error parsing message: '' @
           (case Body m of
              None \<Rightarrow> str ''No content''
            | Some b \<Rightarrow>
                if b \<noteq> [] then substring0 b 100 @ str ''...'' else str ''No content'')),
       lambdaFunction = JString (str ''parser''),
       requestId = JString (str_orElse (MessageId m) (str ''unknown'')) \<rparr>"

definition processMessage :: "jsstring \<Rightarrow> nat \<Rightarrow> sqs_message \<Rightarrow> LogEntry" where
  "processMessage now n m =
     (case tryEntry now n m of Inl err \<Rightarrow> catchEntry now n m | Inr entry \<Rightarrow> entry)"

subsection \<open>The loop and the handler\<close>

text \<open>
  The \<open>for\<close> loop over \<open>response.Messages\<close>: each message pushes the entry of its
  \<open>try\<close> block or of its \<open>catch\<close> block. \<open>clock i\<close> is the time read while the
  message at position \<open>i\<close> is processed.
\<close>

fun processMessages :: "(nat \<Rightarrow> jsstring) \<Rightarrow> LogEntry list \<Rightarrow> sqs_message list \<Rightarrow> LogEntry list" where
  "processMessages clock logs [] = logs"
| "processMessages clock logs (m # ms) =
     processMessages clock
       (logs @ [processMessage (clock (length logs)) (length logs) m]) ms"

text \<open>
  What \<open>sqsClient.send\<close> can throw, the result it can return, and the responses of the
  routes: a status and a JSON body, \<open>{success, logs}\<close> or \<open>{success, message}\<close>.
\<close>

datatype thrown = Error jsstring | NonError

record ReceiveMessageResult =
  Messages :: "sqs_message list option"

datatype response_body =
    LogsBody bool "LogEntry list"
  | MessageBody bool jsstring

datatype response = Response nat response_body

definition mockLogs :: "(nat \<Rightarrow> jsstring) \<Rightarrow> LogEntry list" where
  "mockLogs clock =
     [\<lparr> id' = str ''1'',
        timestamp = JString (clock 0),
        level = str ''INFO'',
        message = JString (str
          ''This is mock data. Please configure SQS_QUEUE_URL in your environment variables.''),
        lambdaFunction = JString (str ''mockGenerator''),
        requestId = JString (str ''mock-req-123'') \<rparr>,
      \<lparr> id' = str ''2'',
        timestamp = JString (clock 1),
        level = str ''WARN'',
        message = JString (str
          ''SQS_QUEUE_URL environment variable is missing. Check your .env.local file.''),
        lambdaFunction = JString (str ''configChecker''),
        requestId = JString (str ''mock-req-124'') \<rparr>]"

text \<open>The inner \<open>try\<close> of the handler (lines 31 to 109): the receive call, then the
  loop. Its \<open>catch\<close> throws a new Error that names the queue.\<close>

definition pollQueue :: "thrown + ReceiveMessageResult \<Rightarrow> (nat \<Rightarrow> jsstring) \<Rightarrow> thrown + response" where
  "pollQueue received clock =
     (case received of
        Inl sqsError \<Rightarrow>
          Inl (Error (str ''SQS error: '' @
            (case sqsError of Error text \<Rightarrow> text | NonError \<Rightarrow> str ''Unknown error'')))
      | Inr result \<Rightarrow>
          (case Messages result of
             None \<Rightarrow> Inr (Response 200 (LogsBody True []))
           | Some ms \<Rightarrow>
               if ms = [] then Inr (Response 200 (LogsBody True []))
               else Inr (Response 200 (LogsBody True (processMessages clock [] ms)))))"

text \<open>\<open>GET /logs\<close> (lines 17 to 149): \<open>received\<close> is the outcome of the receive call,
  made only when a queue is configured; without one the handler answers with the two
  mock entries. The outer \<open>catch\<close> turns what was thrown into the response 500.\<close>

definition GET :: "jsstring \<Rightarrow> thrown + ReceiveMessageResult \<Rightarrow> (nat \<Rightarrow> jsstring) \<Rightarrow> response" where
  "GET SQS_QUEUE_URL received clock =
     (case (if SQS_QUEUE_URL \<noteq> [] then pollQueue received clock
            else Inr (Response 200 (LogsBody True (mockLogs clock)))) of
        Inr res \<Rightarrow> res
      | Inl (Error text) \<Rightarrow>
          Response 500 (MessageBody False (str ''Failed to fetch logs: '' @ text))
      | Inl NonError \<Rightarrow>
          Response 500 (MessageBody False (str ''Failed to fetch logs: Unknown error'')))"

section \<open>The file route: DELETE\<close>

text \<open>
  The handler (lines 102 to 131 of the file route) reads the request's JSON, which is
  \<open>JSON.parse\<close> of the request's text, takes its \<open>fileId\<close> by destructuring, which throws
  on \<open>null\<close>, and sends one delete command to the object store. The store is a
  parameter: \<open>send\<close> takes the command and the state of the world and returns what it
  threw, if anything, and the new state. Whatever is thrown inside the \<open>try\<close> is
  answered with 500.
\<close>

datatype s3_command = DeleteObjectCommand jsstring json

definition failedToDelete :: response where
  "failedToDelete = Response 500 (MessageBody False (str ''Failed to delete file''))"

definition fileIdRequired :: response where
  "fileIdRequired = Response 400 (MessageBody False (str ''File ID is required''))"

definition DELETE ::
    "jsstring \<Rightarrow> (s3_command \<Rightarrow> 'w \<Rightarrow> thrown option \<times> 'w) \<Rightarrow> jsstring \<Rightarrow> 'w \<Rightarrow> response \<times> 'w" where
  "DELETE BUCKET_NAME send request_text w =
     (case JSON_parse request_text of
        Inl err \<Rightarrow> (failedToDelete, w)
      | Inr body \<Rightarrow>
     (case getProp body (str ''fileId'') of
        Inl err \<Rightarrow> (failedToDelete, w)
      | Inr None \<Rightarrow> (fileIdRequired, w)
      | Inr (Some fileId) \<Rightarrow>
          if \<not> truthy fileId then (fileIdRequired, w)
          else
            (case send (DeleteObjectCommand BUCKET_NAME fileId) w of
               (Some err, w') \<Rightarrow> (failedToDelete, w')
             | (None, w') \<Rightarrow>
                 (Response 200 (MessageBody True (str ''File deleted successfully'')), w'))))"

section \<open>Notions used in the statements\<close>

text \<open>
  The entries of a batch, position by position: what the loop appends when it starts
  with \<open>k\<close> entries in \<open>logs\<close>.
\<close>

fun entriesFrom :: "(nat \<Rightarrow> jsstring) \<Rightarrow> nat \<Rightarrow> sqs_message list \<Rightarrow> LogEntry list" where
  "entriesFrom clock k [] = []"
| "entriesFrom clock k (m # ms) = processMessage (clock k) k m # entriesFrom clock (Suc k) ms"

text \<open>The identifiers the queue assigned in a batch: the \<open>MessageId\<close>s that are present
  and not the empty string, in the order of the batch.\<close>

definition queueIds :: "sqs_message list \<Rightarrow> jsstring list" where
  "queueIds ms = [x. Some x \<leftarrow> map MessageId ms, x \<noteq> []]"

text \<open>
  The keyword search as the specification words it (section 4.2, step 2), on a text that
  is already lowercased: \<open>error\<close>, \<open>exception\<close> or \<open>fail\<close> give \<open>ERROR\<close>; otherwise
  \<open>warn\<close> or \<open>caution\<close> give \<open>WARN\<close>; otherwise \<open>INFO\<close>.
\<close>

definition spec_keyword_level :: "jsstring \<Rightarrow> jsstring" where
  "spec_keyword_level text =
     (if str_includes text (str ''error'') \<or> str_includes text (str ''exception'')
         \<or> str_includes text (str ''fail'')
      then str ''ERROR''
      else if str_includes text (str ''warn'') \<or> str_includes text (str ''caution'')
      then str ''WARN''
      else str ''INFO'')"

text \<open>An object store that accepts every command and keeps the list of the commands it
  received.\<close>

definition recording_send :: "s3_command \<Rightarrow> s3_command list \<Rightarrow> thrown option \<times> s3_command list" where
  "recording_send c received = (None, received @ [c])"

section \<open>Inputs of the scenarios\<close>



text \<open>A queue URL, and a clock that reads the same instant at every position.\<close>

definition queue_url :: jsstring where
  "queue_url = str ''https://sqs.us-east-1.amazonaws.com/123456789012/logs''"

definition poll_clock :: "nat \<Rightarrow> jsstring" where
  "poll_clock i = str ''2024-05-01T10:00:00.000Z''"

text \<open>A message whose body is an envelope with the \<open>Message\<close> text \<open>hello\<close>, which is
  not JSON; one whose \<open>Message\<close> is the empty string; a message whose body is not JSON
  at all; a message with neither identifier nor body; a message with an identifier only,
  as the queue delivers it a second time.\<close>

definition hello_message :: sqs_message where
  "hello_message = \<lparr>MessageId = Some (str ''m-1''), Body = Some (str ''{\"Message\":\"hello\"}'')\<rparr>"


definition garbled_message :: sqs_message where
  "garbled_message = \<lparr>MessageId = None, Body = Some (str ''not json'')\<rparr>"

definition blank_message :: sqs_message where
  "blank_message = \<lparr>MessageId = None, Body = None\<rparr>"

definition redelivered_message :: sqs_message where
  "redelivered_message = \<lparr>MessageId = Some (str ''m-1''), Body = None\<rparr>"

text \<open>A batch of three: an identifier and a body, a body only, neither.\<close>

definition mixed_batch :: "sqs_message list" where
  "mixed_batch = [hello_message, garbled_message, blank_message]"

section \<open>The search for a substring\<close>

text \<open>\<open>startsWith\<close> and \<open>str_includes\<close> compute what their names say: \<open>p\<close> is a prefix of
  \<open>s\<close>, and \<open>p\<close> occurs in \<open>s\<close> between some \<open>xs\<close> and some \<open>ys\<close>.\<close>

lemma startsWith_iff: "startsWith s p \<longleftrightarrow> (\<exists>ys. s = p @ ys)"
  by (induction s p rule: startsWith.induct) auto

lemma str_includes_iff: "str_includes s p \<longleftrightarrow> (\<exists>xs ys. s = xs @ p @ ys)"
proof (induction s)
  case Nil
  show ?case by simp
next
  case (Cons c cs)
  show ?case
  proof
    assume "str_includes (c # cs) p"
    then consider "startsWith (c # cs) p" | "str_includes cs p" by auto
    then show "\<exists>xs ys. c # cs = xs @ p @ ys"
    proof cases
      case 1
      then obtain ys where "c # cs = p @ ys" by (auto simp: startsWith_iff)
      then have "c # cs = [] @ p @ ys" by simp
      then show ?thesis by blast
    next
      case 2
      then obtain xs ys where "cs = xs @ p @ ys" using Cons.IH by blast
      then have "c # cs = (c # xs) @ p @ ys" by simp
      then show ?thesis by blast
    qed
  next
    assume "\<exists>xs ys. c # cs = xs @ p @ ys"
    then obtain xs ys where eq: "c # cs = xs @ p @ ys" by blast
    show "str_includes (c # cs) p"
    proof (cases "xs = []")
      case True
      with eq have "startsWith (c # cs) p" by (auto simp: startsWith_iff)
      then show ?thesis by simp
    next
      case False
      with eq have "cs = tl xs @ p @ ys" by (cases xs) simp_all
      then have "str_includes cs p" using Cons.IH by blast
      then show ?thesis by simp
    qed
  qed
qed

section \<open>Evaluations shared by the proofs\<close>

lemma queue_url_configured: "queue_url \<noteq> []"
  by (simp add: queue_url_def str_def)

lemma parse_empty_object: "JSON_parse (str ''{}'') = Inr (JObject [])"
  by code_simp

lemma level_empty_object: "determineLogLevel (JObject []) = str ''INFO''"
  by code_simp

lemma placeholder_zero: "str ''msg-'' @ digits 0 = str ''msg-0''"
  by code_simp

lemma level_names_nonempty:
  "str ''INFO'' \<noteq> []" "str ''WARN'' \<noteq> []" "str ''ERROR'' \<noteq> []"
  by (simp_all add: str_def)


lemma not_json: "JSON_parse (str ''not json'') = Inl SyntaxError"
  by code_simp

lemma lookup_Some_truthy: "lookup p k = Some v \<Longrightarrow> truthy p"
  by (cases p) simp_all

lemma falsy_text:
  assumes "\<not> truthy p"
  shows "JSON_stringify p = str ''null'' \<or> JSON_stringify p = str ''false''
       \<or> JSON_stringify p = str ''0'' \<or> JSON_stringify p = [34, 34]"
  using assms
  by (cases p) (auto simp: Number_toString_def JSON_quote_def)

lemma falsy_spec_keyword_level:
  "spec_keyword_level (toLowerCase (str ''null'')) = str ''INFO''"
  "spec_keyword_level (toLowerCase (str ''false'')) = str ''INFO''"
  "spec_keyword_level (toLowerCase (str ''0'')) = str ''INFO''"
  "spec_keyword_level (toLowerCase [34, 34]) = str ''INFO''"
  by code_simp+

lemma tryEntry_outer_invalid:
  assumes "Body m = Some b" and "b \<noteq> []" and "JSON_parse b = Inl err"
  shows "tryEntry now n m = Inl err"
  using assms by (simp add: tryEntry_def str_orElse_def)

section \<open>The loop, position by position\<close>

lemma processMessages_entriesFrom:
  "processMessages clock logs ms = logs @ entriesFrom clock (length logs) ms"
  by (induction ms arbitrary: logs) simp_all

lemma length_entriesFrom: "length (entriesFrom clock k ms) = length ms"
  by (induction ms arbitrary: k) simp_all

lemma entriesFrom_map:
  "entriesFrom clock k ms =
     map (\<lambda>i. processMessage (clock (k + i)) (k + i) (ms ! i)) [0..<length ms]"
proof (induction ms arbitrary: k)
  case Nil
  show ?case by simp
next
  case (Cons m ms)
  show ?case
    by (simp only: entriesFrom.simps Cons.IH length_Cons map_upt_Suc) simp
qed


lemma one_entry_per_message_aux:
  assumes "SQS_QUEUE_URL \<noteq> []" and "Messages result = Some ms"
  shows "GET SQS_QUEUE_URL (Inr result) clock =
     Response 200 (LogsBody True (map (\<lambda>i. processMessage (clock i) i (ms ! i)) [0..<length ms]))"
proof (cases "ms = []")
  case True
  with assms show ?thesis
    by (simp add: GET_def pollQueue_def)
next
  case False
  have "processMessages clock [] ms =
          map (\<lambda>i. processMessage (clock i) i (ms ! i)) [0..<length ms]"
    by (simp add: processMessages_entriesFrom entriesFrom_map)
  with assms False show ?thesis
    by (simp add: GET_def pollQueue_def)
qed

section \<open>Identifiers\<close>

text \<open>The decimal digits of a number determine it, so two placeholders \<open>msg-i\<close> and
  \<open>msg-j\<close> are equal only when \<open>i = j\<close>.\<close>

lemma digits_value: "foldl (\<lambda>a c. 10 * a + (c - 48)) 0 (digits n) = n"
proof (induction n rule: digits.induct)
  case (1 n)
  show ?case
  proof (cases "n < 10")
    case True
    then show ?thesis by (simp add: digits.simps [of n])
  next
    case False
    with "1" show ?thesis by (simp add: digits.simps [of n])
  qed
qed

lemma digits_inject: "digits a = digits b \<Longrightarrow> a = b"
  by (metis digits_value)

lemma placeholder_inject:
  "str ''msg-'' @ digits a = str ''msg-'' @ digits b \<Longrightarrow> a = b"
  by (simp add: digits_inject)

lemma id_tryEntry:
  "tryEntry now n m = Inr e \<Longrightarrow> id' e = str_orElse (MessageId m) (str ''msg-'' @ digits n)"
  by (auto simp: tryEntry_def split: sum.splits)

lemma id_processMessage:
  "id' (processMessage now n m) = str_orElse (MessageId m) (str ''msg-'' @ digits n)"
  by (cases "tryEntry now n m") (simp_all add: processMessage_def catchEntry_def id_tryEntry)

lemma queueIds_Cons:
  "queueIds (m # ms) =
     (case MessageId m of None \<Rightarrow> [] | Some x \<Rightarrow> if x \<noteq> [] then [x] else []) @ queueIds ms"
  by (simp add: queueIds_def split: option.split)

lemma ids_entriesFrom_subset:
  "set (map id' (entriesFrom clock k ms)) \<subseteq>
     set (queueIds ms) \<union> (\<lambda>j. str ''msg-'' @ digits j) ` {k..<k + length ms}"
proof (induction ms arbitrary: k)
  case Nil
  show ?case by simp
next
  case (Cons m ms)
  have head: "id' (processMessage (clock k) k m) \<in>
      set (queueIds (m # ms)) \<union> (\<lambda>j. str ''msg-'' @ digits j) ` {k..<k + length (m # ms)}"
    by (auto simp: id_processMessage queueIds_Cons str_orElse_def split: option.split)
  have "set (queueIds ms) \<subseteq> set (queueIds (m # ms))"
    by (simp add: queueIds_Cons)
  moreover have "{Suc k..<Suc k + length ms} \<subseteq> {k..<k + length (m # ms)}"
    by auto
  then have "(\<lambda>j. str ''msg-'' @ digits j) ` {Suc k..<Suc k + length ms}
      \<subseteq> (\<lambda>j. str ''msg-'' @ digits j) ` {k..<k + length (m # ms)}"
    by (rule image_mono)
  ultimately have "set (map id' (entriesFrom clock (Suc k) ms)) \<subseteq>
      set (queueIds (m # ms)) \<union> (\<lambda>j. str ''msg-'' @ digits j) ` {k..<k + length (m # ms)}"
    using Cons.IH [of "Suc k"] by blast
  with head show ?case by (simp del: length_Cons)
qed

lemma distinct_ids_entriesFrom:
  assumes "distinct (queueIds ms)"
    and "\<forall>j. k \<le> j \<and> j < k + length ms \<longrightarrow> str ''msg-'' @ digits j \<notin> set (queueIds ms)"
  shows "distinct (map id' (entriesFrom clock k ms))"
  using assms
proof (induction ms arbitrary: k)
  case Nil
  show ?case by simp
next
  case (Cons m ms)
  have tail: "distinct (map id' (entriesFrom clock (Suc k) ms))"
  proof (rule Cons.IH)
    show "distinct (queueIds ms)"
      using Cons.prems(1) by (simp add: queueIds_Cons)
    show "\<forall>j. Suc k \<le> j \<and> j < Suc k + length ms \<longrightarrow> str ''msg-'' @ digits j \<notin> set (queueIds ms)"
      using Cons.prems(2) by (auto simp: queueIds_Cons)
  qed
  have fresh: "id' (processMessage (clock k) k m) \<notin> set (map id' (entriesFrom clock (Suc k) ms))"
  proof
    assume "id' (processMessage (clock k) k m) \<in> set (map id' (entriesFrom clock (Suc k) ms))"
    then have mem: "str_orElse (MessageId m) (str ''msg-'' @ digits k) \<in>
        set (queueIds ms) \<union> (\<lambda>j. str ''msg-'' @ digits j) ` {Suc k..<Suc k + length ms}"
      using ids_entriesFrom_subset [of clock "Suc k" ms] by (auto simp: id_processMessage)
    show False
    proof (cases "\<exists>x. MessageId m = Some x \<and> x \<noteq> []")
      case True
      then obtain x where x: "MessageId m = Some x" "x \<noteq> []" by blast
      then have q: "queueIds (m # ms) = x # queueIds ms"
        by (simp add: queueIds_Cons)
      from x mem have "x \<in> set (queueIds ms) \<or> (\<exists>j. Suc k \<le> j \<and> j < Suc k + length ms \<and> x = str ''msg-'' @ digits j)"
        by (auto simp: str_orElse_def)
      then show False
      proof
        assume "x \<in> set (queueIds ms)"
        with Cons.prems(1) q show False by simp
      next
        assume "\<exists>j. Suc k \<le> j \<and> j < Suc k + length ms \<and> x = str ''msg-'' @ digits j"
        then obtain j where j: "Suc k \<le> j" "j < Suc k + length ms" "x = str ''msg-'' @ digits j"
          by blast
        from j have "k \<le> j \<and> j < k + length (m # ms)" by simp
        with Cons.prems(2) have "str ''msg-'' @ digits j \<notin> set (queueIds (m # ms))"
          by blast
        with q j(3) show False by simp
      qed
    next
      case False
      then have own: "str_orElse (MessageId m) (str ''msg-'' @ digits k) = str ''msg-'' @ digits k"
        by (cases "MessageId m") (auto simp: str_orElse_def)
      from False have q: "queueIds (m # ms) = queueIds ms"
        by (cases "MessageId m") (auto simp: queueIds_Cons)
      from mem own have "str ''msg-'' @ digits k \<in> set (queueIds ms)
          \<or> (\<exists>j. Suc k \<le> j \<and> str ''msg-'' @ digits k = str ''msg-'' @ digits j)"
        by auto
      then show False
      proof
        assume "str ''msg-'' @ digits k \<in> set (queueIds ms)"
        with Cons.prems(2) q show False by auto
      next
        assume "\<exists>j. Suc k \<le> j \<and> str ''msg-'' @ digits k = str ''msg-'' @ digits j"
        then show False using placeholder_inject by fastforce
      qed
    qed
  qed
  from tail fresh show ?case by simp
qed

section \<open>The scenario of the specification\<close>



section \<open>A message without a body\<close>

text \<open>
  C10. For a message whose \<open>Body\<close> is absent the \<open>try\<close> block does not throw, so the
  \<open>catch\<close> block is not reached: the entry has level \<open>INFO\<close>, message
  \<open>No message content\<close>, lambdaFunction \<open>unknown\<close> and the clock's reading as its
  timestamp, and its message is not the error text that ends in \<open>No content\<close>.
\<close>

theorem absent_body_entry:
  assumes "Body m = None"
  shows "tryEntry now n m = Inr (processMessage now n m) \<and>
         processMessage now n m =
           \<lparr> id' = str_orElse (MessageId m) (str ''msg-'' @ digits n),
             timestamp = JString now,
             level = str ''INFO'',
             message = JString (str ''No message content''),
             lambdaFunction = JString (str ''unknown''),
             requestId = JString (str ''unknown'') \<rparr> \<and>
         message (processMessage now n m) \<noteq>
           JString (str ''Error parsing message: No content'')"
proof -
  have texts: "str ''No message content'' \<noteq> str ''Error parsing message: No content''"
    by (simp add: str_def)
  show ?thesis
    using assms texts
    by (simp add: processMessage_def tryEntry_def str_orElse_def parse_empty_object
        getProp_def orElse_def level_empty_object)
qed

theorem absent_body_entry_witness:
  "Body \<lparr>MessageId = Some (str ''m-1''), Body = None\<rparr> = None \<and>
   processMessage (poll_clock 0) 0 \<lparr>MessageId = Some (str ''m-1''), Body = None\<rparr> =
     \<lparr> id' = str ''m-1'',
       timestamp = JString (str ''2024-05-01T10:00:00.000Z''),
       level = str ''INFO'',
       message = JString (str ''No message content''),
       lambdaFunction = JString (str ''unknown''),
       requestId = JString (str ''unknown'') \<rparr>"
  using absent_body_entry [of "\<lparr>MessageId = Some (str ''m-1''), Body = None\<rparr>" "poll_clock 0" 0]
  by (simp add: str_orElse_def poll_clock_def str_def)

section \<open>The severity classifier\<close>

text \<open>
  C4. For every payload whose \<open>level\<close> property is a string that uppercases to
  exactly \<open>INFO\<close>, \<open>WARN\<close> or \<open>ERROR\<close>, \<open>determineLogLevel\<close> returns that uppercased
  string, whatever else the payload contains: the keyword search is not consulted.
\<close>

theorem explicit_level_wins:
  assumes "lookup p (str ''level'') = Some (JString s)"
    and "toUpperCase s = str ''INFO'' \<or> toUpperCase s = str ''WARN'' \<or> toUpperCase s = str ''ERROR''"
  shows "determineLogLevel p = toUpperCase s"
proof -
  have "s \<noteq> []"
    using assms(2) level_names_nonempty by (auto simp: toUpperCase_def)
  moreover have "truthy p"
    using assms(1) by (rule lookup_Some_truthy)
  ultimately show ?thesis
    using assms by (auto simp: determineLogLevel_def is_truthy_def)
qed

theorem explicit_level_wins_witness:
  "determineLogLevel
     (JObject [(str ''level'', JString (str ''info'')),
               (str ''message'', JString (str ''fatal error''))]) = str ''INFO'' \<and>
   spec_keyword_level (toLowerCase (JSON_stringify
     (JObject [(str ''level'', JString (str ''info'')),
               (str ''message'', JString (str ''fatal error''))]))) = str ''ERROR''"
proof -
  let ?p = "JObject [(str ''level'', JString (str ''info'')),
                     (str ''message'', JString (str ''fatal error''))]"
  have l: "lookup ?p (str ''level'') = Some (JString (str ''info''))"
    and u: "toUpperCase (str ''info'') = str ''INFO''"
    and k: "spec_keyword_level (toLowerCase (JSON_stringify ?p)) = str ''ERROR''"
    by code_simp+
  from explicit_level_wins [OF l] u k show ?thesis by simp
qed

text \<open>
  C5. For every payload that has no string \<open>level\<close> property uppercasing to \<open>INFO\<close>,
  \<open>WARN\<close> or \<open>ERROR\<close>, \<open>determineLogLevel\<close> is the keyword search over the lowercased
  serialisation of the whole payload (keys included): \<open>error\<close>, \<open>exception\<close> or \<open>fail\<close>
  give \<open>ERROR\<close>, otherwise \<open>warn\<close> or \<open>caution\<close> give \<open>WARN\<close>, otherwise \<open>INFO\<close>.
  The \<open>null\<close> payload and the empty object are \<open>INFO\<close>.
\<close>

theorem content_classification:
  assumes "\<And>s. lookup p (str ''level'') = Some (JString s) \<Longrightarrow>
             toUpperCase s \<noteq> str ''INFO'' \<and> toUpperCase s \<noteq> str ''WARN''
             \<and> toUpperCase s \<noteq> str ''ERROR''"
  shows "determineLogLevel p = spec_keyword_level (toLowerCase (JSON_stringify p)) \<and>
         determineLogLevel JNull = str ''INFO'' \<and>
         determineLogLevel (JObject []) = str ''INFO''"
proof -
  have general: "determineLogLevel p = spec_keyword_level (toLowerCase (JSON_stringify p))"
  proof (cases "truthy p")
  case False
  then have "determineLogLevel p = str ''INFO''"
    by (simp add: determineLogLevel_def)
  moreover have "spec_keyword_level (toLowerCase (JSON_stringify p)) = str ''INFO''"
    using falsy_text [OF False] falsy_spec_keyword_level by auto
  ultimately show ?thesis by simp
next
  case True
  show ?thesis
  proof (cases "lookup p (str ''level'')")
    case None
    with True show ?thesis
      by (simp add: determineLogLevel_def is_truthy_def spec_keyword_level_def)
  next
    case (Some v)
    show ?thesis
    proof (cases v)
      case (JString s)
      with Some assms [of s] True show ?thesis
        by (simp add: determineLogLevel_def spec_keyword_level_def)
    qed (use Some True level_names_nonempty in
          \<open>auto simp: determineLogLevel_def spec_keyword_level_def\<close>)
    qed
  qed
  moreover have "determineLogLevel JNull = str ''INFO''"
    by (simp add: determineLogLevel_def)
  ultimately show ?thesis
    by (simp add: level_empty_object)
qed

theorem content_classification_witness:
  "determineLogLevel
     (JObject [(str ''Detail'', JString (str ''Unhandled EXCEPTION in handler''))]) = str ''ERROR'' \<and>
   determineLogLevel
     (JObject [(str ''level'', JString (str ''debug'')),
               (str ''Caution'', JBool True)]) = str ''WARN''"
proof -
  let ?p = "JObject [(str ''Detail'', JString (str ''Unhandled EXCEPTION in handler''))]"
  let ?q = "JObject [(str ''level'', JString (str ''debug'')), (str ''Caution'', JBool True)]"
  have lp: "lookup ?p (str ''level'') = None"
    and kp: "spec_keyword_level (toLowerCase (JSON_stringify ?p)) = str ''ERROR''"
    and lq: "lookup ?q (str ''level'') = Some (JString (str ''debug''))"
    and uq: "toUpperCase (str ''debug'') \<noteq> str ''INFO'' \<and> toUpperCase (str ''debug'') \<noteq> str ''WARN''
              \<and> toUpperCase (str ''debug'') \<noteq> str ''ERROR''"
    and kq: "spec_keyword_level (toLowerCase (JSON_stringify ?q)) = str ''WARN''"
    by code_simp+
  from content_classification [of ?p] lp kp content_classification [of ?q] lq uq kq
  show ?thesis by simp
qed

section \<open>One entry for each message\<close>



section \<open>The entry of a message that fails to parse\<close>

text \<open>
  C3. When the \<open>try\<close> block of a message throws (for one, when its body is not JSON),
  the loop appends exactly one entry: level \<open>ERROR\<close>, message
  \<open>Error parsing message: \<close> followed by the first 100 code units of the body and
  \<open>...\<close> (or by \<open>No content\<close> for a body that is absent or empty), lambdaFunction
  \<open>parser\<close>, requestId the message's identifier or \<open>unknown\<close>.
\<close>

theorem parse_failure_entry:
  assumes "tryEntry (clock (length logs)) (length logs) m = Inl err"
  shows "processMessages clock logs [m] = logs @
     [\<lparr> id' = str_orElse (MessageId m) (str ''msg-'' @ digits (length logs)),
        timestamp = JString (clock (length logs)),
        level = str ''ERROR'',
        message = JString (str ''Error parsing message: '' @
          (case Body m of
             None \<Rightarrow> str ''No content''
           | Some b \<Rightarrow> if b = [] then str ''No content'' else take 100 b @ str ''...'')),
        lambdaFunction = JString (str ''parser''),
        requestId = JString (str_orElse (MessageId m) (str ''unknown'')) \<rparr>]"
  using assms
  by (simp add: processMessage_def catchEntry_def substring0_def split: option.split)

theorem parse_failure_entry_witness:
  "tryEntry (poll_clock 0) 0 \<lparr>MessageId = None, Body = Some (str ''not json'')\<rparr> = Inl SyntaxError \<and>
   processMessages poll_clock [] [\<lparr>MessageId = None, Body = Some (str ''not json'')\<rparr>] =
     [\<lparr> id' = str ''msg-0'',
        timestamp = JString (str ''2024-05-01T10:00:00.000Z''),
        level = str ''ERROR'',
        message = JString (str ''Error parsing message: not json...''),
        lambdaFunction = JString (str ''parser''),
        requestId = JString (str ''unknown'') \<rparr>]"
proof -
  let ?m = "\<lparr>MessageId = None, Body = Some (str ''not json'')\<rparr>"
  have t: "tryEntry (poll_clock (length ([] :: LogEntry list))) (length ([] :: LogEntry list)) ?m = Inl SyntaxError"
    by (rule tryEntry_outer_invalid [of _ "str ''not json''"]) (simp_all add: not_json, simp add: str_def)
  from parse_failure_entry [of poll_clock "[]" ?m SyntaxError] t show ?thesis
    by (simp add: str_orElse_def placeholder_zero poll_clock_def) (simp add: str_def)
qed

section \<open>An envelope whose inner message is not JSON\<close>




section \<open>A failing receive call\<close>

text \<open>
  C6. With a queue configured, when the receive call throws, the handler answers 500
  with \<open>{success: false, message}\<close> and no list of entries; the message is
  \<open>Failed to fetch logs: SQS error: \<close> followed by the thrown Error's message, or by
  \<open>Unknown error\<close> when what was thrown is not an Error.
\<close>

theorem transport_failure:
  assumes "SQS_QUEUE_URL \<noteq> []"
  shows "GET SQS_QUEUE_URL (Inl sqsError) clock =
     Response 500 (MessageBody False (str ''Failed to fetch logs: SQS error: '' @
       (case sqsError of Error text \<Rightarrow> text | NonError \<Rightarrow> str ''Unknown error'')))"
  using assms by (simp add: GET_def pollQueue_def str_def)

theorem transport_failure_witness:
  "queue_url \<noteq> [] \<and>
   GET queue_url (Inl (Error (str ''connect ETIMEDOUT''))) poll_clock =
     Response 500 (MessageBody False (str ''Failed to fetch logs: SQS error: connect ETIMEDOUT''))"
  using transport_failure [OF queue_url_configured, of "Error (str ''connect ETIMEDOUT'')" poll_clock]
  by (simp add: queue_url_configured str_def)

section \<open>Identifiers within a batch\<close>

text \<open>
  C8, as the code has it. A batch that carries the same queue identifier twice yields
  two entries with the same id.
\<close>

theorem redelivered_ids_collide:
  "GET queue_url (Inr \<lparr>Messages = Some [redelivered_message, redelivered_message]\<rparr>)
     poll_clock =
     Response 200 (LogsBody True
       [\<lparr> id' = str ''m-1'',
          timestamp = JString (str ''2024-05-01T10:00:00.000Z''),
          level = str ''INFO'',
          message = JString (str ''No message content''),
          lambdaFunction = JString (str ''unknown''),
          requestId = JString (str ''unknown'') \<rparr>,
        \<lparr> id' = str ''m-1'',
          timestamp = JString (str ''2024-05-01T10:00:00.000Z''),
          level = str ''INFO'',
          message = JString (str ''No message content''),
          lambdaFunction = JString (str ''unknown''),
          requestId = JString (str ''unknown'') \<rparr>]) \<and>
   \<not> distinct [str ''m-1'', str ''m-1'']"
  by code_simp

text \<open>
  C8, amended. With a queue configured, when the identifiers the queue assigned in a
  batch are pairwise distinct and none of them is one of the placeholders \<open>msg-j\<close> for a
  position \<open>j\<close> of the batch, the ids of the returned entries are pairwise distinct; the
  id at position \<open>i\<close> is the message's identifier when it has a non-empty one, else
  \<open>msg-i\<close>.
\<close>

theorem ids_pairwise_distinct:
  assumes "SQS_QUEUE_URL \<noteq> []" and "Messages result = Some ms"
    and "distinct (queueIds ms)"
    and "\<forall>j<length ms. str ''msg-'' @ digits j \<notin> set (queueIds ms)"
  shows "\<exists>logs. GET SQS_QUEUE_URL (Inr result) clock = Response 200 (LogsBody True logs)
           \<and> distinct (map id' logs)
           \<and> map id' logs =
               map (\<lambda>i. str_orElse (MessageId (ms ! i)) (str ''msg-'' @ digits i)) [0..<length ms]"
proof -
  let ?logs = "map (\<lambda>i. processMessage (clock i) i (ms ! i)) [0..<length ms]"
  have logs: "?logs = entriesFrom clock 0 ms"
    by (simp add: entriesFrom_map)
  have get: "GET SQS_QUEUE_URL (Inr result) clock = Response 200 (LogsBody True ?logs)"
    using one_entry_per_message_aux [OF assms(1,2)] .
  have "distinct (map id' (entriesFrom clock 0 ms))"
    using assms(3,4) by (intro distinct_ids_entriesFrom) simp_all
  then have "distinct (map id' ?logs)"
    by (simp only: logs)
  moreover have "map id' ?logs =
      map (\<lambda>i. str_orElse (MessageId (ms ! i)) (str ''msg-'' @ digits i)) [0..<length ms]"
    by (simp add: id_processMessage)
  ultimately show ?thesis using get by blast
qed

theorem ids_pairwise_distinct_witness:
  "queue_url \<noteq> [] \<and> distinct (queueIds mixed_batch) \<and>
   (\<exists>logs. GET queue_url (Inr \<lparr>Messages = Some mixed_batch\<rparr>) poll_clock =
              Response 200 (LogsBody True logs) \<and> distinct (map id' logs)
            \<and> map id' logs = [str ''m-1'', str ''msg-1'', str ''msg-2''])"
proof -
  have m: "Messages \<lparr>Messages = Some mixed_batch\<rparr> = Some mixed_batch"
    by simp
  have q: "queueIds mixed_batch = [str ''m-1'']"
    by code_simp
  have d: "distinct (queueIds mixed_batch)"
    by (simp add: q)
  have f: "\<forall>j<length mixed_batch. str ''msg-'' @ digits j \<notin> set (queueIds mixed_batch)"
    by (simp add: q str_def)
  have ids: "map (\<lambda>i. str_orElse (MessageId (mixed_batch ! i)) (str ''msg-'' @ digits i))
               [0..<length mixed_batch] = [str ''m-1'', str ''msg-1'', str ''msg-2'']"
    by code_simp
  from ids_pairwise_distinct [OF queue_url_configured m d f, of poll_clock]
  show ?thesis using queue_url_configured d by (simp add: ids)
qed

section \<open>DELETE without a file id\<close>

text \<open>
  C9, as the code has it. The request body \<open>null\<close> is JSON and has no \<open>fileId\<close>; taking
  \<open>fileId\<close> from it throws, and the handler answers 500, not 400.
\<close>

theorem delete_null_body:
  "JSON_parse (str ''null'') = Inr JNull \<and>
   \<not> is_truthy (lookup JNull (str ''fileId'')) \<and>
   DELETE (str ''uploads-bucket'') recording_send (str ''null'') [] =
     (Response 500 (MessageBody False (str ''Failed to delete file'')), [])"
  by code_simp

text \<open>
  C9, amended. For every request whose body is JSON without a truthy \<open>fileId\<close>, the
  handler sends nothing to the object store, whose state is unchanged, and answers 400
  with \<open>File ID is required\<close>; for the body \<open>null\<close> alone it answers 500 with
  \<open>Failed to delete file\<close>.
\<close>

theorem delete_without_fileId:
  assumes "JSON_parse request_text = Inr body"
    and "\<not> is_truthy (lookup body (str ''fileId''))"
  shows "DELETE BUCKET_NAME send request_text w =
     (if body = JNull
      then Response 500 (MessageBody False (str ''Failed to delete file''))
      else Response 400 (MessageBody False (str ''File ID is required'')), w)"
  using assms
  by (auto simp: DELETE_def getProp_def is_truthy_def failedToDelete_def fileIdRequired_def
      split: option.splits)

theorem delete_without_fileId_witness:
  "DELETE (str ''uploads-bucket'') recording_send (str ''{\"fileId\": \"\"}'') [] =
     (Response 400 (MessageBody False (str ''File ID is required'')), [])"
proof -
  have p: "JSON_parse (str ''{\"fileId\": \"\"}'') = Inr (JObject [(str ''fileId'', JString [])])"
    and f: "\<not> is_truthy (lookup (JObject [(str ''fileId'', JString [])]) (str ''fileId''))"
    by code_simp+
  from delete_without_fileId [OF p f, of "str ''uploads-bucket''" recording_send "[]"]
  show ?thesis by simp
qed

end
